theory Spec2Isabelle
  imports Complex_Main
begin

section \<open>Errors and sequencing\<close>

text \<open>
  The exceptions the modelled code can raise: Python's \<open>IndexError\<close> (a list read out
  of range) and the tensor runtime's \<open>RuntimeError\<close> and \<open>ValueError\<close> (a shape a
  layer does not accept). A computation that can raise returns \<open>error + 'a\<close>, with
  \<open>Inl\<close> for the exception.
\<close>

datatype error = IndexError | RuntimeError | ValueError

definition bind :: "error + 'a \<Rightarrow> ('a \<Rightarrow> error + 'b) \<Rightarrow> error + 'b" where
  "bind r f = (case r of Inl e \<Rightarrow> Inl e | Inr v \<Rightarrow> f v)"

text \<open>Runs a list of computations in order and stops at the first exception.\<close>

fun collect :: "(error + 'a) list \<Rightarrow> error + 'a list" where
  "collect [] = Inr []"
| "collect (r # rs) =
     (case r of
        Inl e \<Rightarrow> Inl e
      | Inr v \<Rightarrow> (case collect rs of Inl e \<Rightarrow> Inl e | Inr vs \<Rightarrow> Inr (v # vs)))"

section \<open>Modules of \<open>classifying_resnet.py\<close>\<close>

subsection \<open>Layers\<close>

text \<open>
  The layers are the \<open>torch.nn\<close> classes the file instantiates, with the constructor
  arguments it passes:
  \<open>Conv2d in_channels out_channels kernel_size stride padding bias\<close>,
  \<open>BatchNorm2d num_features\<close>, \<open>MaxPool2d kernel_size stride padding\<close>,
  \<open>AdaptiveAvgPool2d (h, w)\<close> and \<open>Linear in_features out_features\<close>.
  \<open>nn.Sequential( *layers)\<close> keeps the layers it is given at the moment of the call, so
  a sequential module is the list of its layers.
\<close>

datatype layer =
    Conv2d nat nat nat nat nat bool
  | BatchNorm2d nat
  | MaxPool2d nat nat nat
  | AdaptiveAvgPool2d "nat \<times> nat"
  | Linear nat nat

type_synonym Sequential = "layer list"

definition Sequential :: "layer list \<Rightarrow> Sequential" where
  "Sequential layers = layers"

fun is_BatchNorm2d :: "layer \<Rightarrow> bool" where
  "is_BatchNorm2d (BatchNorm2d _) = True"
| "is_BatchNorm2d _ = False"

definition normalized :: "Sequential \<Rightarrow> bool" where
  "normalized m = list_ex is_BatchNorm2d m"

subsection \<open>\<open>BasicBlock.__init__\<close>\<close>

record BasicBlock =
  conv1 :: Sequential
  conv2 :: Sequential
  shortcut :: Sequential

text \<open>
  The constructor, statement by statement. The local lists \<open>conv_block1\<close> and
  \<open>conv_block2\<close> are rebound where the source appends to them; the second component
  of the result is the final value of the local \<open>conv_block2\<close>, which the source
  drops when the constructor returns.
\<close>

definition BasicBlock_locals :: "nat \<Rightarrow> nat \<Rightarrow> nat \<Rightarrow> nat \<Rightarrow> bool \<Rightarrow> BasicBlock \<times> layer list" where
  "BasicBlock_locals in_channels out_channels kernel_size stride use_batchnorm =
     (let conv_block1 = [];
          conv_block1 = conv_block1 @
            [Conv2d in_channels out_channels kernel_size stride (kernel_size div 2)
               (\<not> use_batchnorm)];
          conv_block1 =
            (if use_batchnorm then conv_block1 @ [BatchNorm2d out_channels] else conv_block1);
          self_conv1 = Sequential conv_block1;
          conv_block2 = [];
          conv_block2 = conv_block2 @
            [Conv2d out_channels out_channels kernel_size 1 (kernel_size div 2)
               (\<not> use_batchnorm)];
          self_conv2 = Sequential conv_block2;
          conv_block2 =
            (if use_batchnorm then conv_block2 @ [BatchNorm2d out_channels] else conv_block2);
          self_shortcut = Sequential [];
          self_shortcut =
            (if stride \<noteq> 1 \<or> in_channels \<noteq> out_channels then
               (let shortcut_layers = [Conv2d in_channels out_channels 1 stride 0 False];
                    shortcut_layers =
                      (if use_batchnorm then shortcut_layers @ [BatchNorm2d out_channels]
                       else shortcut_layers)
                in Sequential shortcut_layers)
             else self_shortcut)
      in (\<lparr>conv1 = self_conv1, conv2 = self_conv2, shortcut = self_shortcut\<rparr>, conv_block2))"

definition BasicBlock_init :: "nat \<Rightarrow> nat \<Rightarrow> nat \<Rightarrow> nat \<Rightarrow> bool \<Rightarrow> BasicBlock" where
  "BasicBlock_init in_channels out_channels kernel_size stride use_batchnorm =
     fst (BasicBlock_locals in_channels out_channels kernel_size stride use_batchnorm)"

subsection \<open>\<open>ClassifyingResNet._make_layer\<close>\<close>

text \<open>
  \<open>_make_layer\<close> leaves \<open>kernel_size\<close> at its default 3. The loop
  \<open>for _ in range(1, block_count)\<close> is a fold over \<open>[1..<block_count]\<close> that appends
  one block per round.
\<close>

definition make_layer :: "bool \<Rightarrow> nat \<Rightarrow> nat \<Rightarrow> nat \<Rightarrow> nat \<Rightarrow> BasicBlock list" where
  "make_layer self_use_batchnorm in_channels out_channels block_count stride =
     (let layers = [];
          layers = layers @ [BasicBlock_init in_channels out_channels 3 stride self_use_batchnorm];
          layers =
            fold (\<lambda>_ layers.
                    layers @ [BasicBlock_init out_channels out_channels 3 stride self_use_batchnorm])
              [1..<block_count] layers
      in layers)"

text \<open>
  What a block was constructed with, read back from the first convolution of its main
  branch (\<open>block.conv1[0].in_channels\<close>, \<open>block.conv1[0].stride\<close>).
\<close>

fun block_in_channels :: "BasicBlock \<Rightarrow> nat option" where
  "block_in_channels b =
     (case conv1 b of Conv2d i _ _ _ _ _ # _ \<Rightarrow> Some i | _ \<Rightarrow> None)"

fun block_out_channels :: "BasicBlock \<Rightarrow> nat option" where
  "block_out_channels b =
     (case conv1 b of Conv2d _ oc _ _ _ _ # _ \<Rightarrow> Some oc | _ \<Rightarrow> None)"

fun block_stride :: "BasicBlock \<Rightarrow> nat option" where
  "block_stride b =
     (case conv1 b of Conv2d _ _ _ s _ _ # _ \<Rightarrow> Some s | _ \<Rightarrow> None)"

subsection \<open>\<open>ClassifyingResNet.__init__\<close>\<close>

text \<open>
  Python's \<open>xs[i]\<close>: a negative index counts from the end, an index outside the list
  raises \<open>IndexError\<close>.
\<close>

definition item :: "'a list \<Rightarrow> int \<Rightarrow> error + 'a" where
  "item xs i =
     (if 0 \<le> i \<and> i < int (length xs) then Inr (xs ! nat i)
      else if i < 0 \<and> - i \<le> int (length xs) then Inr (xs ! nat (int (length xs) + i))
      else Inl IndexError)"

record ClassifyingResNet =
  use_batchnorm :: bool
  conv_block :: Sequential
  max_pool :: layer
  layer1 :: "BasicBlock list"
  layer2 :: "BasicBlock list"
  layer3 :: "BasicBlock list"
  layer4 :: "BasicBlock list"
  global_pool :: layer
  fc :: layer

definition ClassifyingResNet_init ::
  "nat \<Rightarrow> nat \<Rightarrow> nat list \<Rightarrow> nat list \<Rightarrow> nat list \<Rightarrow> bool \<Rightarrow> error + ClassifyingResNet" where
  "ClassifyingResNet_init in_channels num_classes block_channels num_blocks strides use_bn =
     (let conv_block0 = [];
          conv_block0 = conv_block0 @ [Conv2d in_channels in_channels 7 2 3 (\<not> use_bn)];
          conv_block0 =
            (if use_bn then conv_block0 @ [BatchNorm2d in_channels] else conv_block0);
          self_conv_block = Sequential conv_block0;
          self_max_pool = MaxPool2d 3 2 1
      in
        bind (item block_channels 0) (\<lambda>c0.
        bind (item num_blocks 0) (\<lambda>n0.
        bind (item strides 0) (\<lambda>s0.
        let self_layer1 = make_layer use_bn in_channels c0 n0 s0 in
        bind (item block_channels 0) (\<lambda>c0.
        bind (item block_channels 1) (\<lambda>c1.
        bind (item num_blocks 1) (\<lambda>n1.
        bind (item strides 1) (\<lambda>s1.
        let self_layer2 = make_layer use_bn c0 c1 n1 s1 in
        bind (item block_channels 1) (\<lambda>c1.
        bind (item block_channels 2) (\<lambda>c2.
        bind (item num_blocks 2) (\<lambda>n2.
        bind (item strides 2) (\<lambda>s2.
        let self_layer3 = make_layer use_bn c1 c2 n2 s2 in
        bind (item block_channels 2) (\<lambda>c2.
        bind (item block_channels 3) (\<lambda>c3.
        bind (item num_blocks 3) (\<lambda>n3.
        bind (item strides 3) (\<lambda>s3.
        let self_layer4 = make_layer use_bn c2 c3 n3 s3;
            self_global_pool = AdaptiveAvgPool2d (1, 1)
        in
        bind (item block_channels (- 1)) (\<lambda>c_last.
        Inr \<lparr>use_batchnorm = use_bn, conv_block = self_conv_block, max_pool = self_max_pool,
             layer1 = self_layer1, layer2 = self_layer2, layer3 = self_layer3,
             layer4 = self_layer4, global_pool = self_global_pool,
             fc = Linear c_last num_classes\<rparr>)))))))))))))))))"

subsection \<open>Forward passes on shapes\<close>

text \<open>
  A shape is the list of a tensor's dimensions. Each layer's effect on the shape of
  its input follows the tensor library's documented contract (the layers are library
  classes, the repository only composes them):
  \<^item> a convolution or a max-pool with kernel \<open>k\<close>, stride \<open>s\<close> and padding \<open>p\<close> maps a
    spatial size \<open>n\<close> to \<open>\<lfloor>(n + 2p - k) / s\<rfloor> + 1\<close>; they refuse a stride of 0, a padded
    input smaller than the kernel, a convolution input whose channels differ from
    \<open>in_channels\<close>, and a pooling padding above half the kernel;
  \<^item> batch normalization keeps the shape of a 4-dimensional input with \<open>num_features\<close>
    channels;
  \<^item> adaptive average pooling sets the spatial size to the requested one;
  \<^item> a linear layer replaces the last dimension \<open>in_features\<close> by \<open>out_features\<close>.
  Convolution and pooling take a batch \<open>[N, C, H, W]\<close> or a single image \<open>[C, H, W]\<close>.
\<close>

type_synonym shape = "nat list"

definition conv_out :: "nat \<Rightarrow> nat \<Rightarrow> nat \<Rightarrow> nat \<Rightarrow> nat" where
  "conv_out n k s p = (n + 2 * p - k) div s + 1"

definition conv_ok :: "nat \<Rightarrow> nat \<Rightarrow> nat \<Rightarrow> nat \<Rightarrow> nat \<Rightarrow> bool" where
  "conv_ok h w k s p = (0 < s \<and> 0 < k \<and> k \<le> h + 2 * p \<and> k \<le> w + 2 * p)"

fun layer_shape :: "layer \<Rightarrow> shape \<Rightarrow> error + shape" where
  "layer_shape (Conv2d ic oc k s p b) [n, c, h, w] =
     (if c = ic \<and> conv_ok h w k s p
      then Inr [n, oc, conv_out h k s p, conv_out w k s p] else Inl RuntimeError)"
| "layer_shape (Conv2d ic oc k s p b) [c, h, w] =
     (if c = ic \<and> conv_ok h w k s p
      then Inr [oc, conv_out h k s p, conv_out w k s p] else Inl RuntimeError)"
| "layer_shape (Conv2d ic oc k s p b) _ = Inl RuntimeError"
| "layer_shape (BatchNorm2d f) [n, c, h, w] =
     (if c = f then Inr [n, c, h, w] else Inl RuntimeError)"
| "layer_shape (BatchNorm2d f) _ = Inl ValueError"
| "layer_shape (MaxPool2d k s p) [n, c, h, w] =
     (if conv_ok h w k s p \<and> 2 * p \<le> k \<and> 0 < c \<and> 0 < h \<and> 0 < w
      then Inr [n, c, conv_out h k s p, conv_out w k s p] else Inl RuntimeError)"
| "layer_shape (MaxPool2d k s p) [c, h, w] =
     (if conv_ok h w k s p \<and> 2 * p \<le> k \<and> 0 < c \<and> 0 < h \<and> 0 < w
      then Inr [c, conv_out h k s p, conv_out w k s p] else Inl RuntimeError)"
| "layer_shape (MaxPool2d k s p) _ = Inl RuntimeError"
| "layer_shape (AdaptiveAvgPool2d (oh, ow)) [n, c, h, w] =
     (if 0 < c \<and> 0 < h \<and> 0 < w then Inr [n, c, oh, ow] else Inl RuntimeError)"
| "layer_shape (AdaptiveAvgPool2d (oh, ow)) [c, h, w] =
     (if 0 < c \<and> 0 < h \<and> 0 < w then Inr [c, oh, ow] else Inl RuntimeError)"
| "layer_shape (AdaptiveAvgPool2d (oh, ow)) _ = Inl RuntimeError"
| "layer_shape (Linear i o') sh =
     (if sh \<noteq> [] \<and> last sh = i then Inr (butlast sh @ [o']) else Inl RuntimeError)"

text \<open>\<open>nn.Sequential.forward\<close>: the layers in order; no layer, no change.\<close>

fun Sequential_forward :: "('l \<Rightarrow> 'x \<Rightarrow> error + 'x) \<Rightarrow> 'l list \<Rightarrow> 'x \<Rightarrow> error + 'x" where
  "Sequential_forward f [] x = Inr x"
| "Sequential_forward f (l # ls) x = bind (f l x) (Sequential_forward f ls)"

definition relu_shape :: "shape \<Rightarrow> shape" where
  "relu_shape sh = sh"

text \<open>
  \<open>out += identity\<close> adds in place: the result has the shape of \<open>out\<close>, and
  \<open>identity\<close> must broadcast to it (aligned from the last dimension, each of its
  dimensions equal to the one of \<open>out\<close> or 1).
\<close>

definition iadd_shape :: "shape \<Rightarrow> shape \<Rightarrow> error + shape" where
  "iadd_shape out idn =
     (if length idn \<le> length out
         \<and> list_all2 (\<lambda>d i. i = d \<or> i = 1) (drop (length out - length idn) out) idn
      then Inr out else Inl RuntimeError)"

text \<open>The main branch of \<open>BasicBlock.forward\<close>, before the residual addition.\<close>

definition BasicBlock_main_shape :: "BasicBlock \<Rightarrow> shape \<Rightarrow> error + shape" where
  "BasicBlock_main_shape self x =
     bind (Sequential_forward layer_shape (conv1 self) x) (\<lambda>out.
     let out = relu_shape out in
     Sequential_forward layer_shape (conv2 self) out)"

definition BasicBlock_forward_shape :: "BasicBlock \<Rightarrow> shape \<Rightarrow> error + shape" where
  "BasicBlock_forward_shape self x =
     bind (Sequential_forward layer_shape (shortcut self) x) (\<lambda>identity.
     bind (BasicBlock_main_shape self x) (\<lambda>out.
     bind (iadd_shape out identity) (\<lambda>out.
     Inr (relu_shape out))))"

text \<open>\<open>torch.flatten(x, 1)\<close>: needs a dimension 1, and merges it with all after it.\<close>

definition flatten1_shape :: "shape \<Rightarrow> error + shape" where
  "flatten1_shape sh =
     (case sh of
        [] \<Rightarrow> Inl IndexError
      | [d] \<Rightarrow> Inl IndexError
      | d # rest \<Rightarrow> Inr [d, prod_list rest])"

text \<open>The stem of \<open>ClassifyingResNet.forward\<close> (the three statements before layer1).\<close>

definition ClassifyingResNet_stem_shape :: "ClassifyingResNet \<Rightarrow> shape \<Rightarrow> error + shape" where
  "ClassifyingResNet_stem_shape self x =
     bind (Sequential_forward layer_shape (conv_block self) x) (\<lambda>x.
     bind (layer_shape (max_pool self) x) (\<lambda>x.
     Inr (relu_shape x)))"

definition ClassifyingResNet_forward_shape :: "ClassifyingResNet \<Rightarrow> shape \<Rightarrow> error + shape" where
  "ClassifyingResNet_forward_shape self x =
     bind (ClassifyingResNet_stem_shape self x) (\<lambda>x.
     bind (Sequential_forward BasicBlock_forward_shape (layer1 self) x) (\<lambda>x.
     bind (Sequential_forward BasicBlock_forward_shape (layer2 self) x) (\<lambda>x.
     bind (Sequential_forward BasicBlock_forward_shape (layer3 self) x) (\<lambda>x.
     bind (Sequential_forward BasicBlock_forward_shape (layer4 self) x) (\<lambda>x.
     bind (layer_shape (global_pool self) x) (\<lambda>x.
     bind (flatten1_shape x) (\<lambda>x.
     layer_shape (fc self) x)))))))"


subsection \<open>Forward passes on values\<close>

text \<open>
  For the claims about values, a batch of feature maps is a nested list: images, each a
  list of channels, each a plane of rows of values. Values are real numbers.
\<close>

type_synonym plane = "real list list"
type_synonym tensor4 = "real list list list list"

text \<open>\<open>F.relu\<close>, elementwise.\<close>

definition relu :: "real \<Rightarrow> real" where
  "relu v = max 0 v"

definition relu4 :: "tensor4 \<Rightarrow> tensor4" where
  "relu4 x = map (map (map (map relu))) x"

text \<open>
  Max-pooling with kernel \<open>k\<close>, stride \<open>s\<close> and padding \<open>p\<close>: output position \<open>i\<close>
  covers the input positions \<open>i * s - p\<close> up to \<open>i * s - p + k\<close> (exclusive), cut to the
  input. The library pads with minus infinity, the neutral element of the maximum, so
  the maximum is taken over the positions inside the input; a window of padding alone
  cannot occur for the paddings the layer accepts (at most half the kernel) and is
  reported as an error.
\<close>

definition window :: "nat \<Rightarrow> nat \<Rightarrow> nat \<Rightarrow> nat \<Rightarrow> 'a list \<Rightarrow> 'a list" where
  "window k s p i xs = take (i * s + k - p - (i * s - p)) (drop (i * s - p) xs)"

fun max_of :: "real list \<Rightarrow> error + real" where
  "max_of [] = Inl RuntimeError"
| "max_of (v # vs) = Inr (fold max vs v)"

definition width :: "'a list list \<Rightarrow> nat" where
  "width rows = (case rows of [] \<Rightarrow> 0 | r # _ \<Rightarrow> length r)"

definition max_pool_plane :: "nat \<Rightarrow> nat \<Rightarrow> nat \<Rightarrow> plane \<Rightarrow> error + plane" where
  "max_pool_plane k s p rows =
     (let h = length rows; w = width rows in
      if conv_ok h w k s p \<and> 2 * p \<le> k \<and> 0 < h \<and> 0 < w then
        collect (map (\<lambda>i.
          collect (map (\<lambda>j. max_of (concat (map (window k s p j) (window k s p i rows))))
            [0..<conv_out w k s p]))
          [0..<conv_out h k s p])
      else Inl RuntimeError)"

definition MaxPool2d_forward :: "nat \<Rightarrow> nat \<Rightarrow> nat \<Rightarrow> tensor4 \<Rightarrow> error + tensor4" where
  "MaxPool2d_forward k s p x =
     collect (map (\<lambda>img.
       if img = [] then Inl RuntimeError else collect (map (max_pool_plane k s p) img)) x)"

text \<open>
  Adaptive average pooling to \<open>oh \<times> ow\<close>: output position \<open>i\<close> of \<open>out\<close> averages the
  input positions from \<open>\<lfloor>i * n / out\<rfloor>\<close> up to \<open>\<lceil>(i + 1) * n / out\<rceil>\<close> (exclusive); for
  the output size \<open>(1, 1)\<close> of the network that is the whole plane.
\<close>

definition mean :: "real list \<Rightarrow> error + real" where
  "mean vs = (if vs = [] then Inl RuntimeError else Inr (sum_list vs / real (length vs)))"

definition adaptive_window :: "nat \<Rightarrow> nat \<Rightarrow> 'a list \<Rightarrow> 'a list" where
  "adaptive_window out i xs =
     (let n = length xs; start = (i * n) div out; stop = ((i + 1) * n + out - 1) div out
      in take (stop - start) (drop start xs))"

definition adaptive_avg_pool_plane :: "nat \<times> nat \<Rightarrow> plane \<Rightarrow> error + plane" where
  "adaptive_avg_pool_plane osz rows =
     (case osz of (oh, ow) \<Rightarrow>
        if 0 < length rows \<and> 0 < width rows then
          collect (map (\<lambda>i.
            collect (map (\<lambda>j.
              mean (concat (map (adaptive_window ow j) (adaptive_window oh i rows))))
              [0..<ow]))
            [0..<oh])
        else Inl RuntimeError)"

definition AdaptiveAvgPool2d_forward :: "nat \<times> nat \<Rightarrow> tensor4 \<Rightarrow> error + tensor4" where
  "AdaptiveAvgPool2d_forward osz x =
     collect (map (\<lambda>img.
       if img = [] then Inl RuntimeError else collect (map (adaptive_avg_pool_plane osz) img)) x)"

text \<open>
  The value a layer computes. The pooling layers have no weights; what a convolution, a
  normalization or a linear layer computes depends on its weights and is the parameter
  \<open>wt\<close>.
\<close>

fun layer_forward ::
  "(layer \<Rightarrow> tensor4 \<Rightarrow> error + tensor4) \<Rightarrow> layer \<Rightarrow> tensor4 \<Rightarrow> error + tensor4" where
  "layer_forward wt (MaxPool2d k s p) x = MaxPool2d_forward k s p x"
| "layer_forward wt (AdaptiveAvgPool2d osz) x = AdaptiveAvgPool2d_forward osz x"
| "layer_forward wt l x = wt l x"

text \<open>
  The stem of \<open>ClassifyingResNet.forward\<close> on values, in the order of the source:
  \<open>conv_block\<close>, \<open>max_pool\<close>, \<open>F.relu\<close>.
\<close>

definition ClassifyingResNet_stem ::
  "(layer \<Rightarrow> tensor4 \<Rightarrow> error + tensor4) \<Rightarrow> ClassifyingResNet \<Rightarrow> tensor4 \<Rightarrow> error + tensor4" where
  "ClassifyingResNet_stem wt self x =
     bind (Sequential_forward (layer_forward wt) (conv_block self) x) (\<lambda>x.
     bind (layer_forward wt (max_pool self) x) (\<lambda>x.
     Inr (relu4 x)))"

text \<open>
  The stem in the order the specification gives: convolution (with its normalization),
  ReLU, max-pool.
\<close>

definition stem_spec_order ::
  "(layer \<Rightarrow> tensor4 \<Rightarrow> error + tensor4) \<Rightarrow> ClassifyingResNet \<Rightarrow> tensor4 \<Rightarrow> error + tensor4" where
  "stem_spec_order wt self x =
     bind (Sequential_forward (layer_forward wt) (conv_block self) x) (\<lambda>x.
     bind (Inr (relu4 x)) (\<lambda>x.
     layer_forward wt (max_pool self) x))"

text \<open>The statement \<open>x = self.global_pool(x)\<close> of \<open>forward\<close>.\<close>

definition ClassifyingResNet_global_pool ::
  "(layer \<Rightarrow> tensor4 \<Rightarrow> error + tensor4) \<Rightarrow> ClassifyingResNet \<Rightarrow> tensor4 \<Rightarrow> error + tensor4" where
  "ClassifyingResNet_global_pool wt self x = layer_forward wt (global_pool self) x"

section \<open>Modules of \<open>class_guided_unet.py\<close>\<close>

text \<open>
  A tensor of this module is its shape and its values in row-major order.
\<close>

record tensor =
  shape :: "nat list"
  data :: "real list"

definition numel :: "tensor \<Rightarrow> nat" where
  "numel t = prod_list (shape t)"

text \<open>
  Parameters are objects shared by reference: a module holds the addresses of its
  parameters, and the store maps an address (an index) to the parameter's values and
  its \<open>requires_grad\<close> flag. The state also holds the global gradient mode that
  \<open>torch.no_grad()\<close> switches.
\<close>

record parameter =
  pdata :: "real list"
  requires_grad :: bool

type_synonym addr = nat

record state =
  heap :: "parameter list"
  grad_enabled :: bool

text \<open>
  A module supplied by the caller (the classifier, the U-Net): what \<open>.parameters()\<close>
  yields, and its forward function, which reads the store.
\<close>

record 'f Module =
  parameters :: "addr list"
  forward :: 'f

text \<open>
  \<open>nn.Linear(in_features, out_features)\<close> allocates a weight of \<open>out_features \<times> in_features\<close>
  values and a bias of \<open>out_features\<close> values, both with \<open>requires_grad = True\<close>; their
  initial values are drawn at random and are the parameters \<open>w0\<close> and \<open>b0\<close> here. Its
  forward replaces the last dimension of the input.
\<close>

record Linear_module =
  in_features :: nat
  out_features :: nat
  weight :: addr
  bias :: addr

definition Linear_init ::
  "(nat \<Rightarrow> real) \<Rightarrow> (nat \<Rightarrow> real) \<Rightarrow> parameter list \<Rightarrow> nat \<Rightarrow> nat \<Rightarrow> Linear_module \<times> parameter list" where
  "Linear_init w0 b0 h n_in n_out =
     (\<lparr>in_features = n_in, out_features = n_out, weight = length h, bias = length h + 1\<rparr>,
      h @ [\<lparr>pdata = map w0 [0..<n_out * n_in], requires_grad = True\<rparr>,
           \<lparr>pdata = map b0 [0..<n_out], requires_grad = True\<rparr>])"

definition rows_of :: "nat \<Rightarrow> 'a list \<Rightarrow> 'a list list" where
  "rows_of n xs = map (\<lambda>i. take n (drop (i * n) xs)) [0..<length xs div n]"

definition Linear_forward :: "parameter list \<Rightarrow> Linear_module \<Rightarrow> tensor \<Rightarrow> error + tensor" where
  "Linear_forward h lin t =
     (if shape t = [] \<or> last (shape t) \<noteq> in_features lin then Inl RuntimeError
      else
        let w = rows_of (in_features lin) (pdata (h ! weight lin));
            b = pdata (h ! bias lin)
        in Inr \<lparr>shape = butlast (shape t) @ [out_features lin],
                data = concat (map (\<lambda>row.
                         map (\<lambda>j. sum_list (map2 (*) row (w ! j)) + b ! j)
                           [0..<out_features lin])
                         (rows_of (in_features lin) (data t)))\<rparr>)"

text \<open>
  \<open>Tensor.view( *sizes)\<close>: at most one size may be \<open>-1\<close> and is inferred from the number of
  elements, which the other sizes must divide; without a \<open>-1\<close> the sizes must multiply to
  the number of elements. The values are kept.
\<close>

definition view :: "tensor \<Rightarrow> int list \<Rightarrow> error + tensor" where
  "view t sizes =
     (let known = prod_list (map nat (filter (\<lambda>d. d \<noteq> - 1) sizes)) in
      if list_ex (\<lambda>d. d < - 1) sizes \<or> 1 < length (filter (\<lambda>d. d = - 1) sizes)
      then Inl RuntimeError
      else if - 1 \<in> set sizes
      then (if known = 0 \<or> numel t mod known \<noteq> 0 then Inl RuntimeError
            else Inr (t\<lparr>shape := map (\<lambda>d. if d = - 1 then numel t div known else nat d) sizes\<rparr>))
      else (if known = numel t then Inr (t\<lparr>shape := map nat sizes\<rparr>) else Inl RuntimeError))"

text \<open>
  The model object. Its field \<open>self.fc\<close> is \<open>fc_proj\<close> here, since \<open>fc\<close> is already the
  linear head of \<open>ClassifyingResNet\<close>.
\<close>

definition FEATURE_CHANNELS :: nat where
  "FEATURE_CHANNELS = 32"

record ClassGuidedUNet =
  classifier :: "(parameter list \<Rightarrow> tensor \<Rightarrow> error + tensor) Module"
  unet :: "(parameter list \<Rightarrow> tensor \<Rightarrow> tensor \<Rightarrow> error + tensor) Module"
  fc_proj :: Linear_module

text \<open>
  \<open>param.requires_grad = False\<close> on the parameter object at an address (an address
  always refers to an object of the store).
\<close>

definition freeze :: "addr \<Rightarrow> parameter list \<Rightarrow> parameter list" where
  "freeze param h = (if param < length h then h[param := (h ! param)\<lparr>requires_grad := False\<rparr>] else h)"

text \<open>
  \<open>ClassGuidedUNet.__init__\<close>: the projection layer is created first, then the loop
  over \<open>self.classifier.parameters()\<close> clears the flag of each.
\<close>

definition ClassGuidedUNet_init ::
  "(nat \<Rightarrow> real) \<Rightarrow> (nat \<Rightarrow> real) \<Rightarrow> state
   \<Rightarrow> (parameter list \<Rightarrow> tensor \<Rightarrow> error + tensor) Module
   \<Rightarrow> (parameter list \<Rightarrow> tensor \<Rightarrow> tensor \<Rightarrow> error + tensor) Module
   \<Rightarrow> nat \<Rightarrow> ClassGuidedUNet \<times> state" where
  "ClassGuidedUNet_init w0 b0 s classifier0 unet0 feature_channels =
     (let (self_fc, h) = Linear_init w0 b0 (heap s) 10 (feature_channels * 12 * 12);
          h = fold freeze (parameters classifier0) h
      in (\<lparr>classifier = classifier0, unet = unet0, fc_proj = self_fc\<rparr>, s\<lparr>heap := h\<rparr>))"

text \<open>
  \<open>ClassGuidedUNet.forward\<close> up to the call of the U-Net: the classifier runs with the
  gradient mode switched off, and the mode is restored when the \<open>with\<close> block is left,
  also by an exception; then the projection and the \<open>view\<close>. The result is the
  conditioning tensor that \<open>forward\<close> hands to the U-Net.
\<close>

definition ClassGuidedUNet_conditioning ::
  "ClassGuidedUNet \<Rightarrow> state \<Rightarrow> tensor \<Rightarrow> (error + tensor) \<times> state" where
  "ClassGuidedUNet_conditioning self s x =
     (let prev = grad_enabled s;
          s = s\<lparr>grad_enabled := False\<rparr>;
          class_out = forward (classifier self) (heap s) x;
          s = s\<lparr>grad_enabled := prev\<rparr>
      in (bind class_out (\<lambda>class_out.
          bind (Linear_forward (heap s) (fc_proj self) class_out) (\<lambda>class_out.
          view class_out [- 1, int (out_features (fc_proj self) div (12 * 12)), 12, 12])), s))"

definition ClassGuidedUNet_forward ::
  "ClassGuidedUNet \<Rightarrow> state \<Rightarrow> tensor \<Rightarrow> (error + tensor) \<times> state" where
  "ClassGuidedUNet_forward self s x =
     (let (class_out, s) = ClassGuidedUNet_conditioning self s x
      in (bind class_out (\<lambda>class_out. forward (unet self) (heap s) x class_out), s))"

section \<open>Properties of block construction\<close>

lemma BasicBlock_init_conv1:
  "conv1 (BasicBlock_init ic oc k s bn) =
     Conv2d ic oc k s (k div 2) (\<not> bn) # (if bn then [BatchNorm2d oc] else [])"
  by (simp add: BasicBlock_init_def BasicBlock_locals_def Sequential_def Let_def)

lemma BasicBlock_init_conv2:
  "conv2 (BasicBlock_init ic oc k s bn) = [Conv2d oc oc k 1 (k div 2) (\<not> bn)]"
  by (simp add: BasicBlock_init_def BasicBlock_locals_def Sequential_def Let_def)

lemma BasicBlock_init_shortcut:
  "shortcut (BasicBlock_init ic oc k s bn) =
     (if s \<noteq> 1 \<or> ic \<noteq> oc
      then Conv2d ic oc 1 s 0 False # (if bn then [BatchNorm2d oc] else [])
      else [])"
  by (simp add: BasicBlock_init_def BasicBlock_locals_def Sequential_def Let_def)

lemma fold_append_const:
  "fold (\<lambda>_ ls. ls @ [b]) xs ls0 = ls0 @ replicate (length xs) b"
  by (induction xs arbitrary: ls0) (simp_all add: replicate_app_Cons_same)

lemma make_layer_eq:
  "make_layer bn ic oc n s =
     BasicBlock_init ic oc 3 s bn # replicate (n - 1) (BasicBlock_init oc oc 3 s bn)"
  by (simp add: make_layer_def fold_append_const Let_def)

text \<open>
  C1. With \<open>use_batchnorm = True\<close> the module \<open>self.conv2\<close> is the second convolution
  alone: the \<open>BatchNorm2d\<close> is appended to the local list \<open>conv_block2\<close> after
  \<open>nn.Sequential\<close> was built from it, so the list ends with the normalization and the
  module does not hold it. Of the three paths, \<open>conv2\<close> is the one that is never
  normalized: \<open>conv1\<close> is, and the shortcut is wherever it has a layer, that is when it
  is the projection (\<open>stride \<noteq> 1\<close> or \<open>in_channels \<noteq> out_channels\<close>); the identity
  shortcut is the empty module.
\<close>

theorem C1_conv2_not_normalized:
  "conv2 (BasicBlock_init ic oc k s True) = [Conv2d oc oc k 1 (k div 2) False]
   \<and> \<not> normalized (conv2 (BasicBlock_init ic oc k s True))
   \<and> snd (BasicBlock_locals ic oc k s True) =
       [Conv2d oc oc k 1 (k div 2) False, BatchNorm2d oc]
   \<and> normalized (conv1 (BasicBlock_init ic oc k s True))
   \<and> normalized (shortcut (BasicBlock_init ic oc k s True)) =
       (shortcut (BasicBlock_init ic oc k s True) \<noteq> [])
   \<and> (shortcut (BasicBlock_init ic oc k s True) \<noteq> []) = (s \<noteq> 1 \<or> ic \<noteq> oc)"
  by (simp add: BasicBlock_init_def BasicBlock_locals_def Sequential_def normalized_def Let_def)

theorem C1_conv2_not_normalized_witness:
  "conv2 (BasicBlock_init 3 16 3 2 True) = [Conv2d 16 16 3 1 1 False]
   \<and> \<not> normalized (conv2 (BasicBlock_init 3 16 3 2 True))
   \<and> snd (BasicBlock_locals 3 16 3 2 True) = [Conv2d 16 16 3 1 1 False, BatchNorm2d 16]
   \<and> normalized (conv1 (BasicBlock_init 3 16 3 2 True))
   \<and> normalized (shortcut (BasicBlock_init 3 16 3 2 True))"
  using C1_conv2_not_normalized [of 3 16 3 2]
  by (simp add: BasicBlock_init_def BasicBlock_locals_def Sequential_def normalized_def Let_def)

lemma length_make_layer: "length (make_layer bn ic oc n s) = Suc (n - 1)"
  by (simp add: make_layer_eq)

lemma make_layer_later:
  assumes "0 < i" and "i < length (make_layer bn ic oc n s)"
  shows "make_layer bn ic oc n s ! i = BasicBlock_init oc oc 3 s bn"
proof -
  obtain j where j: "i = Suc j"
    using assms(1) by (cases i) simp_all
  with assms(2) have "j < n - 1"
    by (simp add: length_make_layer)
  with j show ?thesis
    by (simp add: make_layer_eq)
qed

text \<open>
  C2, as the claim states it, fails: \<open>_make_layer\<close> passes its \<open>stride\<close> argument to
  every block, not only to the first. In the stage \<open>_make_layer(3, 16, 2, 2)\<close> (the
  default first stage) the second block has stride 2.
\<close>

theorem C2_later_stride_counterexample:
  "(1::nat) < 2
   \<and> length (make_layer True 3 16 2 2) = 2
   \<and> block_in_channels (make_layer True 3 16 2 2 ! 1) = Some 16
   \<and> block_out_channels (make_layer True 3 16 2 2 ! 1) = Some 16
   \<and> block_stride (make_layer True 3 16 2 2 ! 1) = Some 2
   \<and> block_stride (make_layer True 3 16 2 2 ! 1) \<noteq> Some 1"
  by (simp add: make_layer_eq BasicBlock_init_conv1)

text \<open>
  C2, amended. In every stage built by \<open>_make_layer\<close>, each block after the first is
  \<open>BasicBlock(out_channels, out_channels, stride=stride)\<close>: its input channels equal
  its output channels, and its stride is the stride of the stage (so it is 1 exactly
  when the stage's stride is 1). The stage has \<open>max 1 block_count\<close> blocks.
\<close>

theorem C2_later_blocks:
  assumes "0 < i" and "i < length (make_layer bn ic oc n s)"
  shows "make_layer bn ic oc n s ! i = BasicBlock_init oc oc 3 s bn
         \<and> block_in_channels (make_layer bn ic oc n s ! i) = Some oc
         \<and> block_out_channels (make_layer bn ic oc n s ! i) = Some oc
         \<and> block_stride (make_layer bn ic oc n s ! i) = Some s
         \<and> length (make_layer bn ic oc n s) = max 1 n"
  using make_layer_later [OF assms]
  by (simp add: BasicBlock_init_conv1 length_make_layer max_def)

theorem C2_later_blocks_witness:
  "(0::nat) < 1 \<and> 1 < length (make_layer True 3 16 2 2)
   \<and> make_layer True 3 16 2 2 ! 1 = BasicBlock_init 16 16 3 2 True
   \<and> block_stride (make_layer True 3 16 2 2 ! 1) = Some 2"
proof -
  have h: "(1::nat) < length (make_layer True 3 16 2 2)"
    by (simp add: length_make_layer)
  show ?thesis
    using h C2_later_blocks [of 1 True 3 16 2 2]
    by (simp add: BasicBlock_init_conv1)
qed

section \<open>Shapes through the residual network\<close>


lemma bind_Inr [simp]: "bind (Inr v) f = f v"
  by (simp add: bind_def)

lemma bind_Inl [simp]: "bind (Inl e) f = Inl e"
  by (simp add: bind_def)

lemma conv_out_same: "odd k \<Longrightarrow> 0 < h \<Longrightarrow> conv_out h k s (k div 2) = (h - 1) div s + 1"
  by (auto simp: conv_out_def elim!: oddE)

lemma conv_out_1x1: "conv_out h (Suc 0) s 0 = Suc ((h - Suc 0) div s)"
  by (simp add: conv_out_def)

lemma conv_ok_same: "odd k \<Longrightarrow> 0 < s \<Longrightarrow> 0 < h \<Longrightarrow> 0 < w \<Longrightarrow> conv_ok h w k s (k div 2)"
  by (auto simp: conv_ok_def elim!: oddE)

lemma iadd_shape_same [simp]: "iadd_shape sh sh = Inr sh"
  by (simp add: iadd_shape_def list_all2_same)

lemma main_shape:
  assumes "odd k" "0 < s" "0 < h" "0 < w"
  shows "BasicBlock_main_shape (BasicBlock_init ic oc k s bn) [n, ic, h, w] =
           Inr [n, oc, (h - 1) div s + 1, (w - 1) div s + 1]"
  using assms
  by (simp add: BasicBlock_main_shape_def BasicBlock_init_conv1 BasicBlock_init_conv2
      relu_shape_def conv_out_same conv_ok_same)

lemma shortcut_shape_proj:
  assumes "s \<noteq> 1 \<or> ic \<noteq> oc" "0 < s" "0 < h" "0 < w"
  shows "Sequential_forward layer_shape (shortcut (BasicBlock_init ic oc k s bn)) [n, ic, h, w] =
           Inr [n, oc, (h - 1) div s + 1, (w - 1) div s + 1]"
  using assms
  by (auto simp add: BasicBlock_init_shortcut conv_out_1x1 conv_ok_def)

lemma block_shape:
  assumes "odd k" "0 < s" "0 < h" "0 < w"
  shows "BasicBlock_forward_shape (BasicBlock_init ic oc k s bn) [n, ic, h, w] =
           Inr [n, oc, (h - 1) div s + 1, (w - 1) div s + 1]"
proof (cases "s \<noteq> 1 \<or> ic \<noteq> oc")
  case True
  then show ?thesis
    using assms
    by (simp add: BasicBlock_forward_shape_def main_shape shortcut_shape_proj relu_shape_def)
next
  case False
  then have "shortcut (BasicBlock_init ic oc k s bn) = []"
    by (simp add: BasicBlock_init_shortcut)
  with False show ?thesis
    using assms main_shape [OF assms, of ic oc bn n]
    by (simp add: BasicBlock_forward_shape_def relu_shape_def)
qed


lemma blocks_replicate:
  assumes "0 < s"
  shows "0 < h \<Longrightarrow> 0 < w \<Longrightarrow>
         \<exists>h' w'. 0 < h' \<and> 0 < w' \<and>
           Sequential_forward BasicBlock_forward_shape
             (replicate m (BasicBlock_init oc oc 3 s bn)) [n, oc, h, w] = Inr [n, oc, h', w']"
proof (induction m arbitrary: h w)
  case 0
  then show ?case by simp
next
  case (Suc m)
  have "0 < (h - 1) div s + 1" "0 < (w - 1) div s + 1"
    by simp_all
  from Suc.IH [OF this] show ?case
    using assms Suc.prems by (simp add: block_shape)
qed

lemma stage_shape:
  assumes "0 < s" "0 < h" "0 < w"
  shows "\<exists>h' w'. 0 < h' \<and> 0 < w' \<and>
           Sequential_forward BasicBlock_forward_shape
             (make_layer bn ic oc cnt s) [n, ic, h, w] = Inr [n, oc, h', w']"
proof -
  have "0 < (h - 1) div s + 1" "0 < (w - 1) div s + 1"
    by simp_all
  from blocks_replicate [OF assms(1) this] show ?thesis
    using assms by (simp add: make_layer_eq block_shape)
qed


lemma init_ok:
  assumes "length block_channels = 4" "4 \<le> length num_blocks" "4 \<le> length strides"
  shows "ClassifyingResNet_init ic nc block_channels num_blocks strides bn =
     Inr \<lparr>use_batchnorm = bn,
          conv_block = Conv2d ic ic 7 2 3 (\<not> bn) # (if bn then [BatchNorm2d ic] else []),
          max_pool = MaxPool2d 3 2 1,
          layer1 = make_layer bn ic (block_channels ! 0) (num_blocks ! 0) (strides ! 0),
          layer2 = make_layer bn (block_channels ! 0) (block_channels ! 1) (num_blocks ! 1) (strides ! 1),
          layer3 = make_layer bn (block_channels ! 1) (block_channels ! 2) (num_blocks ! 2) (strides ! 2),
          layer4 = make_layer bn (block_channels ! 2) (block_channels ! 3) (num_blocks ! 3) (strides ! 3),
          global_pool = AdaptiveAvgPool2d (1, 1),
          fc = Linear (block_channels ! 3) nc\<rparr>"
proof -
  have i: "item block_channels 0 = Inr (block_channels ! 0)" "item block_channels 1 = Inr (block_channels ! 1)"
     "item block_channels 2 = Inr (block_channels ! 2)" "item block_channels 3 = Inr (block_channels ! 3)"
     "item num_blocks 0 = Inr (num_blocks ! 0)" "item num_blocks 1 = Inr (num_blocks ! 1)"
     "item num_blocks 2 = Inr (num_blocks ! 2)" "item num_blocks 3 = Inr (num_blocks ! 3)"
     "item strides 0 = Inr (strides ! 0)" "item strides 1 = Inr (strides ! 1)"
     "item strides 2 = Inr (strides ! 2)" "item strides 3 = Inr (strides ! 3)"
    using assms by (auto simp add: item_def)
  have l: "item block_channels (- 1) = Inr (block_channels ! 3)"
    using assms(1) by (simp add: item_def)
  show ?thesis
    by (simp add: ClassifyingResNet_init_def i l Sequential_def Let_def)
qed


lemma init_Inr_D:
  assumes "ClassifyingResNet_init ic nc bcs nbs sts bn = Inr m"
  shows "conv_block m = Conv2d ic ic 7 2 3 (\<not> bn) # (if bn then [BatchNorm2d ic] else [])"
    and "max_pool m = MaxPool2d 3 2 1"
    and "\<exists>c0 n0 s0. item bcs 0 = Inr c0 \<and> item nbs 0 = Inr n0 \<and> item sts 0 = Inr s0
           \<and> layer1 m = make_layer bn ic c0 n0 s0"
    and "global_pool m = AdaptiveAvgPool2d (1, 1)"
  using assms
  by (auto simp add: ClassifyingResNet_init_def Sequential_def Let_def bind_def
      split: sum.splits)

lemma stem_shape:
  assumes "conv_block m = Conv2d ic ic 7 2 3 (\<not> bn) # (if bn then [BatchNorm2d ic] else [])"
    and "max_pool m = MaxPool2d 3 2 1" and "0 < ic" and "0 < h" and "0 < w"
  shows "ClassifyingResNet_stem_shape m [n, ic, h, w] =
           Inr [n, ic, (h - 1) div 4 + 1, (w - 1) div 4 + 1]"
proof -
  have c: "conv_out h 7 2 3 = (h - 1) div 2 + 1" "conv_out w 7 2 3 = (w - 1) div 2 + 1"
    using assms(4,5) by (simp_all add: conv_out_def)
  have p: "conv_out ((h - 1) div 2 + 1) 3 2 1 = (h - 1) div 4 + 1"
          "conv_out ((w - 1) div 2 + 1) 3 2 1 = (w - 1) div 4 + 1"
    by (simp_all add: conv_out_def div_mult2_eq [symmetric])
  have ok: "conv_ok h w 7 2 3" "conv_ok ((h - 1) div 2 + 1) ((w - 1) div 2 + 1) 3 2 1"
    using assms(4,5) by (simp_all add: conv_ok_def)
  show ?thesis
    using assms(3)
    by (simp add: ClassifyingResNet_stem_shape_def assms(1,2) c p ok relu_shape_def
        del: One_nat_def)
qed








section \<open>Values through the stem and the global pooling\<close>

lemma collect_map_sum:
  "collect (map (\<lambda>i. map_sum id f (g i)) js) = map_sum id (map f) (collect (map g js))"
  by (induction js) (auto split: sum.splits)

lemma relu_max: "relu (max a b) = max (relu a) (relu b)"
  by (simp add: relu_def max_def)

lemma fold_max_relu: "fold max (map relu vs) (relu v) = relu (fold max vs v)"
  by (induction vs arbitrary: v) (simp_all add: relu_max [symmetric])

lemma max_of_relu: "max_of (map relu vs) = map_sum id relu (max_of vs)"
  by (cases vs) (simp_all add: fold_max_relu)

lemma window_map: "window k s p i (map f xs) = map f (window k s p i xs)"
  by (simp add: window_def take_map drop_map)

lemma width_map: "width (map (map f) rows) = width rows"
  by (cases rows) (simp_all add: width_def)

lemma window_concat_relu:
  "concat (map (window k s p j) (window k s p i (map (map relu) rows))) =
     map relu (concat (map (window k s p j) (window k s p i rows)))"
  by (simp add: window_map map_concat o_def)

lemma max_pool_plane_relu:
  "max_pool_plane k s p (map (map relu) rows) =
     map_sum id (map (map relu)) (max_pool_plane k s p rows)"
  by (simp add: max_pool_plane_def width_map window_concat_relu max_of_relu collect_map_sum
      Let_def)

lemma MaxPool2d_forward_relu:
  "MaxPool2d_forward k s p (relu4 x) = map_sum id relu4 (MaxPool2d_forward k s p x)"
proof -
  have img: "(if img = [] then Inl RuntimeError
              else collect (map (max_pool_plane k s p) (map (map (map relu)) img))) =
        map_sum id (map (map (map relu)))
          (if img = [] then Inl RuntimeError else collect (map (max_pool_plane k s p) img))"
    for img
    by (simp add: o_def max_pool_plane_relu collect_map_sum)
  have "MaxPool2d_forward k s p (relu4 x) =
          collect (map (\<lambda>img. map_sum id (map (map (map relu)))
            (if img = [] then Inl RuntimeError else collect (map (max_pool_plane k s p) img))) x)"
    by (simp add: MaxPool2d_forward_def relu4_def o_def img)
  also have "\<dots> = map_sum id relu4 (MaxPool2d_forward k s p x)"
    unfolding MaxPool2d_forward_def relu4_def
    by (rule collect_map_sum)
  finally show ?thesis .
qed


lemma MaxPool2d_relu_commute:
  "bind (MaxPool2d_forward k s p x) (\<lambda>y. Inr (relu4 y)) = MaxPool2d_forward k s p (relu4 x)"
  by (cases "MaxPool2d_forward k s p x") (simp_all add: MaxPool2d_forward_relu)

text \<open>
  C3. For every input and whatever the convolution and normalization of the stem
  compute, the stem in the specification's order (convolution, ReLU, max-pool) returns
  what the stem in the source's order (convolution, max-pool, ReLU) returns, errors
  included: ReLU is monotone, so it commutes with the maximum over each window.
\<close>

theorem C3_stem_order:
  assumes "ClassifyingResNet_init ic nc bcs nbs sts bn = Inr m"
  shows "ClassifyingResNet_stem wt m x = stem_spec_order wt m x"
proof -
  have mp: "max_pool m = MaxPool2d 3 2 1"
    using assms by (rule init_Inr_D(2))
  show ?thesis
  proof (cases "Sequential_forward (layer_forward wt) (conv_block m) x")
    case (Inl e)
    then show ?thesis
      by (simp add: ClassifyingResNet_stem_def stem_spec_order_def)
  next
    case (Inr y)
    then show ?thesis
      using MaxPool2d_relu_commute [of 3 2 1 y]
      by (simp add: ClassifyingResNet_stem_def stem_spec_order_def mp)
  qed
qed

theorem C3_stem_order_witness:
  "\<exists>m. ClassifyingResNet_init 3 10 [16, 32, 64, 128] [2, 2, 2, 2] [2, 1, 1, 1] False = Inr m
      \<and> ClassifyingResNet_stem (\<lambda>l x. Inr x) m [[[[-1, -2], [-3, -4]]]] = Inr [[[[0]]]]
      \<and> stem_spec_order (\<lambda>l x. Inr x) m [[[[-1, -2], [-3, -4]]]] = Inr [[[[0]]]]"
proof -
  obtain m where m:
    "ClassifyingResNet_init 3 10 [16, 32, 64, 128] [2, 2, 2, 2] [2, 1, 1, 1] False = Inr m"
    using init_ok [of "[16, 32, 64, 128]" "[2, 2, 2, 2]" "[2, 1, 1, 1]" 3 10 False] by simp
  have e: "MaxPool2d_forward 3 2 1 [[[[-1, -2], [-3, -4]]]] = Inr [[[[-1]]]]"
    by code_simp
  have "ClassifyingResNet_stem (\<lambda>l x. Inr x) m [[[[-1, -2], [-3, -4]]]] = Inr [[[[0]]]]"
    using init_Inr_D(1,2) [OF m] e
    by (simp add: ClassifyingResNet_stem_def relu4_def relu_def)
  with m C3_stem_order [OF m, of "\<lambda>l x. Inr x" "[[[[-1, -2], [-3, -4]]]]"]
  show ?thesis by auto
qed

lemma collect_map_Inr: "collect (map (\<lambda>i. Inr (g i)) js) = Inr (map g js)"
  by (induction js) simp_all

lemma concat_replicate_replicate: "concat (replicate h (replicate w c)) = replicate (h * w) c"
  by (induction h) (simp_all add: replicate_add)

lemma adaptive_window_all: "adaptive_window (Suc 0) 0 xs = xs"
  by (simp add: adaptive_window_def)

lemma mean_replicate: "0 < n \<Longrightarrow> mean (replicate n c) = Inr c"
  by (simp add: mean_def sum_list_replicate)

lemma width_replicate: "0 < h \<Longrightarrow> width (replicate h r) = length r"
  by (cases h) (simp_all add: width_def)

lemma global_plane_const:
  assumes "0 < h" and "0 < w"
  shows "adaptive_avg_pool_plane (Suc 0, Suc 0) (replicate h (replicate w c)) = Inr [[c]]"
  using assms
  by (simp add: adaptive_avg_pool_plane_def width_replicate adaptive_window_all
      concat_replicate_replicate mean_replicate)

lemma global_image_const:
  assumes "0 < h" and "0 < w"
  shows "collect (map (\<lambda>c. adaptive_avg_pool_plane (Suc 0, Suc 0) (replicate h (replicate w c))) cs) =
           Inr (map (\<lambda>c. [[c]]) cs)"
  by (induction cs) (simp_all add: global_plane_const [OF assms])

lemma global_pool_const:
  assumes "0 < h" and "0 < w" and "list_all (\<lambda>img. img \<noteq> []) cs"
  shows "AdaptiveAvgPool2d_forward (Suc 0, Suc 0)
           (map (map (\<lambda>c. replicate h (replicate w c))) cs) =
           Inr (map (map (\<lambda>c. [[c]])) cs)"
  using assms(3)
  unfolding AdaptiveAvgPool2d_forward_def
  by (induction cs) (simp_all add: o_def global_image_const [OF assms(1,2)])




section \<open>The class-guided U-Net\<close>

lemma Linear_forward_shape:
  "shape t = [n, 10] \<Longrightarrow> in_features lin = 10 \<Longrightarrow>
     \<exists>y. Linear_forward h lin t = Inr y \<and> shape y = [n, out_features lin]"
  by (simp add: Linear_forward_def Let_def)

lemma view_infer:
  assumes "0 < c" and "shape y = [n, c * 12 * 12]"
  shows "\<exists>t. view y [- 1, int c, 12, 12] = Inr t \<and> shape t = [n, c, 12, 12] \<and> data t = data y"
  using assms
  by (simp add: view_def numel_def Let_def)


lemma init_fc:
  "fc_proj (fst (ClassGuidedUNet_init w0 b0 s cls un c)) =
     \<lparr>in_features = 10, out_features = c * 12 * 12,
      weight = length (heap s), bias = length (heap s) + 1\<rparr>"
  by (simp add: ClassGuidedUNet_init_def Linear_init_def Let_def)

lemma init_modules:
  "classifier (fst (ClassGuidedUNet_init w0 b0 s cls un c)) = cls"
  "unet (fst (ClassGuidedUNet_init w0 b0 s cls un c)) = un"
  by (simp_all add: ClassGuidedUNet_init_def Linear_init_def Let_def)

lemma init_heap:
  "heap (snd (ClassGuidedUNet_init w0 b0 s cls un c)) =
     fold freeze (parameters cls) (snd (Linear_init w0 b0 (heap s) 10 (c * 12 * 12)))"
  by (simp add: ClassGuidedUNet_init_def Let_def split_def)

lemma Linear_init_heap:
  "length (snd (Linear_init w0 b0 h i n)) = length h + 2"
  "a < length h \<Longrightarrow> snd (Linear_init w0 b0 h i n) ! a = h ! a"
  "requires_grad (snd (Linear_init w0 b0 h i n) ! length h)"
  "requires_grad (snd (Linear_init w0 b0 h i n) ! Suc (length h))"
  by (simp_all add: Linear_init_def nth_append)

lemma length_freeze [simp]: "length (freeze a h) = length h"
  by (simp add: freeze_def)

lemma length_fold_freeze [simp]: "length (fold freeze ps h) = length h"
  by (induction ps arbitrary: h) simp_all

lemma freeze_other: "a \<noteq> b \<Longrightarrow> freeze b h ! a = h ! a"
  by (simp add: freeze_def)

lemma fold_freeze_other: "a \<notin> set ps \<Longrightarrow> fold freeze ps h ! a = h ! a"
  by (induction ps arbitrary: h) (auto simp add: freeze_other)

lemma freeze_keeps_frozen:
  "a < length h \<Longrightarrow> \<not> requires_grad (h ! a) \<Longrightarrow> \<not> requires_grad (freeze b h ! a)"
  by (cases "a = b") (simp_all add: freeze_def)

lemma fold_freeze_keeps_frozen:
  "a < length h \<Longrightarrow> \<not> requires_grad (h ! a) \<Longrightarrow> \<not> requires_grad (fold freeze ps h ! a)"
  by (induction ps arbitrary: h) (simp_all add: freeze_keeps_frozen)

lemma freeze_self: "a < length h \<Longrightarrow> \<not> requires_grad (freeze a h ! a)"
  by (simp add: freeze_def)

lemma fold_freeze_member:
  "a \<in> set ps \<Longrightarrow> a < length h \<Longrightarrow> \<not> requires_grad (fold freeze ps h ! a)"
proof (induction ps arbitrary: h)
  case Nil
  then show ?case by simp
next
  case (Cons p ps)
  show ?case
  proof (cases "a = p")
    case True
    with Cons.prems(2) show ?thesis
      by (simp add: fold_freeze_keeps_frozen freeze_self)
  next
    case False
    with Cons show ?thesis by simp
  qed
qed

lemma conditioning_state: "snd (ClassGuidedUNet_conditioning self st x) = st"
  by (simp add: ClassGuidedUNet_conditioning_def Let_def)

lemma forward_state: "snd (ClassGuidedUNet_forward self st x) = st"
  using conditioning_state [of self st x]
  by (simp add: ClassGuidedUNet_forward_def split_def)





text \<open>
  C6. For every batch size \<open>N \<ge> 1\<close> and every \<open>feature_channels \<ge> 1\<close>, the projection layer
  maps a classifier output of shape \<open>[N, 10]\<close> to shape \<open>[N, feature_channels * 12 * 12]\<close>,
  the following \<open>view(-1, out_features // (12 * 12), 12, 12)\<close> succeeds with shape
  \<open>[N, feature_channels, 12, 12]\<close>, and \<open>out_features // 144\<close> is \<open>feature_channels\<close>.
\<close>

theorem C6_projection_shape:
  assumes "0 < feature_channels" and "1 \<le> N" and "shape class_out = [N, 10]"
  shows "\<exists>y c.
           Linear_forward h (fc_proj (fst (ClassGuidedUNet_init w0 b0 s cls un feature_channels)))
             class_out = Inr y
           \<and> shape y = [N, feature_channels * 12 * 12]
           \<and> view y [- 1, int (out_features
                (fc_proj (fst (ClassGuidedUNet_init w0 b0 s cls un feature_channels))) div (12 * 12)),
                12, 12] = Inr c
           \<and> shape c = [N, feature_channels, 12, 12]
           \<and> out_features (fc_proj (fst (ClassGuidedUNet_init w0 b0 s cls un feature_channels)))
                div (12 * 12) = feature_channels"
proof -
  let ?fc = "fc_proj (fst (ClassGuidedUNet_init w0 b0 s cls un feature_channels))"
  have o: "out_features ?fc = feature_channels * 12 * 12" and i: "in_features ?fc = 10"
    by (simp_all add: init_fc)
  have d: "out_features ?fc div (12 * 12) = feature_channels"
    by (simp add: o)
  from Linear_forward_shape [OF assms(3) i, of h] obtain y where
    y: "Linear_forward h ?fc class_out = Inr y" "shape y = [N, feature_channels * 12 * 12]"
    by (auto simp add: o)
  from view_infer [OF assms(1) y(2)] obtain c where
    c: "view y [- 1, int feature_channels, 12, 12] = Inr c" "shape c = [N, feature_channels, 12, 12]"
    by blast
  from y c d show ?thesis
    by (simp only: d) blast
qed

theorem C6_projection_shape_witness:
  "\<exists>y c. Linear_forward
            (heap (snd (ClassGuidedUNet_init (\<lambda>i. 0) (\<lambda>i. 0) \<lparr>heap = [], grad_enabled = True\<rparr>
               \<lparr>parameters = [], forward = (\<lambda>h t. Inr t)\<rparr>
               \<lparr>parameters = [], forward = (\<lambda>h img c. Inr img)\<rparr> FEATURE_CHANNELS)))
            (fc_proj (fst (ClassGuidedUNet_init (\<lambda>i. 0) (\<lambda>i. 0) \<lparr>heap = [], grad_enabled = True\<rparr>
               \<lparr>parameters = [], forward = (\<lambda>h t. Inr t)\<rparr>
               \<lparr>parameters = [], forward = (\<lambda>h img c. Inr img)\<rparr> FEATURE_CHANNELS)))
            \<lparr>shape = [2, 10], data = replicate 20 0\<rparr> = Inr y
         \<and> shape y = [2, 4608]
         \<and> view y [- 1, 32, 12, 12] = Inr c
         \<and> shape c = [2, 32, 12, 12]"
  using C6_projection_shape [of FEATURE_CHANNELS 2 "\<lparr>shape = [2, 10], data = replicate 20 0\<rparr>"
      "heap (snd (ClassGuidedUNet_init (\<lambda>i. 0) (\<lambda>i. 0) \<lparr>heap = [], grad_enabled = True\<rparr>
               \<lparr>parameters = [], forward = (\<lambda>h t. Inr t)\<rparr>
               \<lparr>parameters = [], forward = (\<lambda>h img c. Inr img)\<rparr> FEATURE_CHANNELS))"
      "\<lambda>i. 0" "\<lambda>i. 0" "\<lparr>heap = [], grad_enabled = True\<rparr>"
      "\<lparr>parameters = [], forward = (\<lambda>h t. Inr t)\<rparr>"
      "\<lparr>parameters = [], forward = (\<lambda>h img c. Inr img)\<rparr>"]
  by (simp add: FEATURE_CHANNELS_def init_fc)



end
